theory Spec2Isabelle
  imports Complex_Main "HOL-Library.Word"
begin

unbundle bit_operations_syntax

section \<open>Values of the Go program\<close>

subsection \<open>float64\<close>

text \<open>
  A \<open>float64\<close> is a finite value, one of the two infinities, or not-a-number. Finite
  values are exact reals: rounding is not modelled, and neither is the sign of zero. The
  functions below only convert \<open>int\<close>s, divide, multiply, add one half, take the floor
  and the maximum, and compare; the infinities and NaN arise from a division by a zero
  dimension, and are kept because Go does not panic there. (The scaling policy compares a
  quotient of two converted \<open>int\<close>s with 1. Below \<open>2 ^ 53\<close> the conversions are exact,
  and the correctly rounded quotient of two such integers is on the same side of 1 as the
  exact quotient.)
\<close>

datatype f64 = Fin real | PInf | NInf | NaN

definition f64_of_int :: "int \<Rightarrow> f64" where
  "f64_of_int i = Fin (real_of_int i)"

text \<open>IEEE 754 division. A zero divisor is always the positive zero here.\<close>

fun f64_div :: "f64 \<Rightarrow> f64 \<Rightarrow> f64" where
  "f64_div (Fin a) (Fin b) =
     (if b = 0 then (if a = 0 then NaN else if 0 < a then PInf else NInf)
      else Fin (a / b))"
| "f64_div (Fin a) PInf = Fin 0"
| "f64_div (Fin a) NInf = Fin 0"
| "f64_div PInf (Fin b) = (if 0 \<le> b then PInf else NInf)"
| "f64_div NInf (Fin b) = (if 0 \<le> b then NInf else PInf)"
| "f64_div _ _ = NaN"

fun f64_mul :: "f64 \<Rightarrow> f64 \<Rightarrow> f64" where
  "f64_mul (Fin a) (Fin b) = Fin (a * b)"
| "f64_mul NaN _ = NaN"
| "f64_mul _ NaN = NaN"
| "f64_mul (Fin a) PInf = (if a = 0 then NaN else if 0 < a then PInf else NInf)"
| "f64_mul (Fin a) NInf = (if a = 0 then NaN else if 0 < a then NInf else PInf)"
| "f64_mul PInf (Fin b) = (if b = 0 then NaN else if 0 < b then PInf else NInf)"
| "f64_mul NInf (Fin b) = (if b = 0 then NaN else if 0 < b then NInf else PInf)"
| "f64_mul PInf PInf = PInf"
| "f64_mul NInf NInf = PInf"
| "f64_mul PInf NInf = NInf"
| "f64_mul NInf PInf = NInf"

fun f64_add :: "f64 \<Rightarrow> f64 \<Rightarrow> f64" where
  "f64_add (Fin a) (Fin b) = Fin (a + b)"
| "f64_add NaN _ = NaN"
| "f64_add _ NaN = NaN"
| "f64_add PInf NInf = NaN"
| "f64_add NInf PInf = NaN"
| "f64_add PInf _ = PInf"
| "f64_add _ PInf = PInf"
| "f64_add NInf _ = NInf"
| "f64_add _ NInf = NInf"

text \<open>The comparisons \<open><\<close> and \<open>>\<close>: false as soon as one side is NaN.\<close>

fun f64_less :: "f64 \<Rightarrow> f64 \<Rightarrow> bool" where
  "f64_less (Fin a) (Fin b) = (a < b)"
| "f64_less NaN _ = False"
| "f64_less _ NaN = False"
| "f64_less _ NInf = False"
| "f64_less PInf _ = False"
| "f64_less NInf _ = True"
| "f64_less _ PInf = True"

definition f64_greater :: "f64 \<Rightarrow> f64 \<Rightarrow> bool" where
  "f64_greater x y = f64_less y x"

text \<open>
  \<open>math.Max\<close>: positive infinity wins over everything, also over NaN; then NaN wins.
\<close>

fun math_Max :: "f64 \<Rightarrow> f64 \<Rightarrow> f64" where
  "math_Max x y =
     (if x = PInf \<or> y = PInf then PInf
      else if x = NaN \<or> y = NaN then NaN
      else (case (x, y) of
              (Fin a, Fin b) \<Rightarrow> Fin (max a b)
            | (NInf, _) \<Rightarrow> y
            | (_, _) \<Rightarrow> x))"

fun math_Floor :: "f64 \<Rightarrow> f64" where
  "math_Floor (Fin a) = Fin (real_of_int \<lfloor>a\<rfloor>)"
| "math_Floor x = x"

subsection \<open>Images, options\<close>

type_synonym bytes = "8 word list"

record rectangle =
  Min_X :: int
  Min_Y :: int
  Max_X :: int
  Max_Y :: int

definition Dx :: "rectangle \<Rightarrow> int" where
  "Dx r = Max_X r - Min_X r"

definition Dy :: "rectangle \<Rightarrow> int" where
  "Dy r = Max_Y r - Min_Y r"

definition image_Rect :: "int \<Rightarrow> int \<Rightarrow> int \<Rightarrow> int \<Rightarrow> rectangle" where
  \<comment> \<open>\<open>image.Rect\<close> swaps the coordinates that are out of order\<close>
  "image_Rect x0 y0 x1 y1 =
     \<lparr>Min_X = min x0 x1, Min_Y = min y0 y1, Max_X = max x0 x1, Max_Y = max y0 y1\<rparr>"

text \<open>
  An \<open>int\<close> of Go is an integer here: the program adds and subtracts coordinates and
  halves sizes, and otherwise only converts its \<open>int\<close>s to \<open>float64\<close>.

  An \<open>image.Image\<close> is an interface value; \<open>Kind\<close> is its dynamic type. The three
  concrete types the program builds or tests for share the fields \<open>Pix\<close>, \<open>Stride\<close>
  and \<open>Rect\<close>.
\<close>

datatype image_kind = NRGBA | RGBA | Paletted | OtherImage

record image =
  Kind :: image_kind
  Pix :: bytes
  Stride :: int
  Rect :: rectangle

definition Bounds :: "image \<Rightarrow> rectangle" where
  "Bounds e = Rect e"

text \<open>\<open>imaging.Format\<close> is an \<open>int\<close> with five named values.\<close>

type_synonym Format = int

definition JPEG :: Format where "JPEG = 0"
definition PNG :: Format where "PNG = 1"
definition GIF :: Format where "GIF = 2"
definition TIFF :: Format where "TIFF = 3"
definition BMP :: Format where "BMP = 4"

datatype ResampleFilter = Lanczos

text \<open>
  The fields of \<open>Options\<close> that this file reads or writes. The struct is declared in
  another file of the package.
\<close>

record Options =
  Upscale :: bool
  Format :: Format
  Quality :: int
  Width :: int
  Height :: int
  Position :: string
  Degree :: int

type_synonym imageTransformation = "image \<Rightarrow> image"
type_synonym transformation = "image \<Rightarrow> int \<Rightarrow> int \<Rightarrow> ResampleFilter \<Rightarrow> image"

section \<open>Scaling policy\<close>

definition scalingFactor :: "int \<Rightarrow> int \<Rightarrow> int \<Rightarrow> int \<Rightarrow> f64" where
  "scalingFactor srcWidth srcHeight destWidth destHeight =
     math_Max (f64_div (f64_of_int destWidth) (f64_of_int srcWidth))
              (f64_div (f64_of_int destHeight) (f64_of_int srcHeight))"

definition imageSize :: "image \<Rightarrow> int \<times> int" where
  "imageSize e = (Max_X (Bounds e), Max_Y (Bounds e))"

definition scalingFactorImage :: "image \<Rightarrow> int \<Rightarrow> int \<Rightarrow> f64" where
  "scalingFactorImage img dstWidth dstHeight =
     (case imageSize img of (width, height) \<Rightarrow>
        scalingFactor width height dstWidth dstHeight)"

definition scale :: "image \<Rightarrow> Options \<Rightarrow> transformation \<Rightarrow> image" where
  \<comment> \<open>\<open>transf\<close> is the parameter \<open>trans\<close> of the source, here and below\<close>
  "scale img options transf =
     (let factor = scalingFactorImage img (Width options) (Height options)
      in if f64_less factor (Fin 1) \<or> Upscale options
         then transf img (Width options) (Height options) Lanczos
         else img)"

section \<open>Errors\<close>

text \<open>
  A Go \<open>error\<close> return and a run-time panic are both values here: a function that can
  fail returns \<open>error + 'a\<close>, with \<open>Inl\<close> for the failure. \<open>LibraryError\<close> stands for
  the errors of the codec libraries, which this file only passes on.
\<close>

datatype panic = NilDereference | IndexOutOfRange

datatype error =
    ErrSyntax
  | ErrRange
  | ErrUnsupportedFormat
  | InvalidRotate int
  | InvalidFlip string
  | LibraryError nat
  | Panic panic

section \<open>Color analysis\<close>

subsection \<open>Hex2RGB\<close>

type_synonym Hex = string

record RGB =
  Red :: "8 word"
  Green :: "8 word"
  Blue :: "8 word"

text \<open>
  \<open>strconv.ParseUint(s, 16, 32)\<close> of the Go standard library, with the base and the bit
  size of the one call in this file: no sign, no prefix and no underscore is accepted, the
  letters may be of either case, and the accumulator is a \<open>uint64\<close> checked against
  \<open>cutoff\<close> before the multiplication and against \<open>maxVal\<close> after the addition.
\<close>

definition lower :: "8 word \<Rightarrow> 8 word" where
  "lower c = c OR (0x78 - 0x58)"

definition digit :: "8 word \<Rightarrow> 8 word option" where
  "digit c =
     (if 0x30 \<le> c \<and> c \<le> 0x39 then Some (c - 0x30)
      else if 0x61 \<le> lower c \<and> lower c \<le> 0x7A then Some (lower c - 0x61 + 10)
      else None)"

definition cutoff :: "64 word" where
  "cutoff = (-1) div 16 + 1"

definition maxVal :: "64 word" where
  "maxVal = push_bit 32 1 - 1"

fun ParseUint_loop :: "8 word list \<Rightarrow> 64 word \<Rightarrow> error + 64 word" where
  "ParseUint_loop [] n = Inr n"
| "ParseUint_loop (c # cs) n =
     (case digit c of
        None \<Rightarrow> Inl ErrSyntax
      | Some d \<Rightarrow>
          if d \<ge> 16 then Inl ErrSyntax
          else if n \<ge> cutoff then Inl ErrRange
          else (let n' = n * 16; n1 = n' + ucast d
                in if n1 < n' \<or> n1 > maxVal then Inl ErrRange
                   else ParseUint_loop cs n1))"

definition ParseUint_16_32 :: "string \<Rightarrow> error + 64 word" where
  "ParseUint_16_32 s =
     (if s = [] then Inl ErrSyntax else ParseUint_loop (map of_char s) 0)"

text \<open>On an error Go returns the zero \<open>RGB\<close> beside it; a caller that drops the error
  reads that zero value (see \<open>createWatermark\<close>).\<close>

definition Hex2RGB :: "Hex \<Rightarrow> error + RGB" where
  "Hex2RGB hex =
     (case ParseUint_16_32 hex of
        Inl err \<Rightarrow> Inl err
      | Inr values \<Rightarrow>
          Inr \<lparr>Red = ucast (drop_bit 16 values),
               Green = ucast (drop_bit 8 values AND 0xFF),
               Blue = ucast (values AND 0xFF)\<rparr>)"

text \<open>
  The value of a string of hexadecimal digits as a natural number, independent of the
  parser: what "valid base-16" and "the parsed integer" mean in the statements below.
\<close>

definition hexdigit :: "char \<Rightarrow> nat option" where
  "hexdigit c =
     (if c \<in> set ''0123456789'' then Some (of_char c - 48)
      else if c \<in> set ''abcdef'' then Some (of_char c - 87)
      else if c \<in> set ''ABCDEF'' then Some (of_char c - 55)
      else None)"

definition hex_step :: "nat \<Rightarrow> char \<Rightarrow> nat" where
  "hex_step n c = 16 * n + the (hexdigit c)"

definition hex_value :: "string \<Rightarrow> nat" where
  "hex_value s = foldl hex_step 0 s"

definition hex_digits :: "string \<Rightarrow> bool" where
  "hex_digits s = list_all (\<lambda>c. hexdigit c \<noteq> None) s"

definition valid_hex :: "string \<Rightarrow> bool" where
  "valid_hex s = (s \<noteq> [] \<and> hex_digits s)"

subsection \<open>FindLuminenace\<close>

text \<open>
  A \<open>float32\<close> channel is an exact real here. The loop body returns in both branches;
  \<open>FindLuminenace_loop\<close> is \<open>Some\<close> of the value returned from inside the loop and
  \<open>None\<close> when the loop ends without returning. The statement after the loop indexes the
  slice, which panics out of range.
\<close>

fun FindLuminenace_loop :: "real list \<Rightarrow> real option" where
  "FindLuminenace_loop [] = None"
| "FindLuminenace_loop (v # rest) =
     (let v = v / 255
      in if v \<le> 0.03928 then Some (v / 12.92)
         else Some (((v + 0.55) / 1.055) * 2))"

definition at_index :: "'a list \<Rightarrow> nat \<Rightarrow> error + 'a" where
  "at_index xs i = (if i < length xs then Inr (xs ! i) else Inl (Panic IndexOutOfRange))"

definition FindLuminenace :: "real list \<Rightarrow> error + real" where
  "FindLuminenace items =
     (case FindLuminenace_loop items of
        Some result \<Rightarrow> Inr result
      | None \<Rightarrow>
          (case at_index items 0 of Inl e \<Rightarrow> Inl e | Inr i0 \<Rightarrow>
           case at_index items 1 of Inl e \<Rightarrow> Inl e | Inr i1 \<Rightarrow>
           case at_index items 2 of Inl e \<Rightarrow> Inl e | Inr i2 \<Rightarrow>
             Inr (i0 * 0.2126 + i1 * 0.7152 + i2 * 0.07222)))"

text \<open>
  The contract the specification gives for the same function: the piecewise correction of
  each channel, then the weighted sum.
\<close>

definition spec_channel :: "real \<Rightarrow> real" where
  "spec_channel c =
     (let v = c / 255
      in if v \<le> 0.03928 then v / 12.92 else ((v + 0.055) / 1.055) powr 2.4)"

definition spec_relative_luminance :: "real \<Rightarrow> real \<Rightarrow> real \<Rightarrow> real" where
  "spec_relative_luminance r g b =
     0.2126 * spec_channel r + 0.7152 * spec_channel g + 0.0722 * spec_channel b"


section \<open>The libraries\<close>

text \<open>
  The program composes the codecs of the Go standard library and of
  \<open>golang.org/x/image\<close>, the resampling and orientation primitives of
  \<open>disintegration/imaging\<close>, the drawing primitives of \<open>image/draw\<close> and the
  dominant-color extraction of \<open>cenkalti/dominantcolor\<close>. None of them is part of this
  package, and neither is the \<open>decode\<close> function of another file of the package: the
  pipeline takes them all as one record of functions and is verified for every such
  record. An encoder returns what it wrote to its writer and its error, a primitive that
  draws on its destination returns the destination as drawn.
\<close>

record ImageFile =
  Source :: bytes

record gif =
  Image :: "image list"
  Delay :: "int list"
  LoopCount :: int
  Disposal :: bytes
  Config_Width :: int
  Config_Height :: int
  BackgroundIndex :: "8 word"

datatype draw_op = Over | Src

type_synonym point = "int \<times> int"

record lib =
  decode :: "bytes \<Rightarrow> error + image"
  gif_Decode :: "bytes \<Rightarrow> error + image"
  gif_DecodeAll :: "bytes \<Rightarrow> error + gif"
  gif_EncodeAll :: "gif \<Rightarrow> bytes \<times> error option"
  jpeg_Encode :: "image \<Rightarrow> int \<Rightarrow> bytes \<times> error option"
  png_Encode :: "image \<Rightarrow> bytes \<times> error option"
  gif_Encode :: "image \<Rightarrow> int \<Rightarrow> bytes \<times> error option"
  tiff_Encode :: "image \<Rightarrow> bytes \<times> error option"
  bmp_Encode :: "image \<Rightarrow> bytes \<times> error option"
  open_png_Decode :: "string \<Rightarrow> image option"
  imaging_Resize :: transformation
  imaging_Thumbnail :: transformation
  imaging_Fit :: transformation
  imaging_FlipH :: imageTransformation
  imaging_FlipV :: imageTransformation
  imaging_Rotate90 :: imageTransformation
  imaging_Rotate180 :: imageTransformation
  imaging_Rotate270 :: imageTransformation
  NRGBA_Opaque :: "image \<Rightarrow> bool"
  draw_Draw :: "image \<Rightarrow> rectangle \<Rightarrow> image \<Rightarrow> point \<Rightarrow> draw_op \<Rightarrow> image"
  draw_DrawMask ::
    "image \<Rightarrow> rectangle \<Rightarrow> image \<Rightarrow> point \<Rightarrow> 8 word \<Rightarrow> point \<Rightarrow> draw_op \<Rightarrow> image"
  FloydSteinberg_Draw :: "image \<Rightarrow> rectangle \<Rightarrow> image \<Rightarrow> point \<Rightarrow> image"
  dominantcolor_Hex_Find :: "image \<Rightarrow> string"
  int_of_f64_other :: "f64 \<Rightarrow> int"

text \<open>
  \<open>open_png_Decode\<close> is \<open>os.Open\<close> followed by \<open>png.Decode\<close> with both errors dropped,
  as \<open>createWatermark\<close> calls them: \<open>None\<close> is the nil image left by a failure. The mask
  of \<open>draw_DrawMask\<close> is the alpha of a uniform image. \<open>int_of_f64_other\<close> is the result
  of converting to \<open>int\<close> a float that no \<open>int\<close> represents, which Go leaves to the
  implementation.
\<close>

definition image_ZP :: point where
  "image_ZP = (0, 0)"

definition Rect_Add :: "rectangle \<Rightarrow> point \<Rightarrow> rectangle" where
  "Rect_Add r p =
     \<lparr>Min_X = Min_X r + fst p, Min_Y = Min_Y r + snd p,
      Max_X = Max_X r + fst p, Max_Y = Max_Y r + snd p\<rparr>"

text \<open>
  \<open>image.NewRGBA\<close> and \<open>image.NewPaletted\<close> allocate a zeroed buffer. (They panic on a
  rectangle of negative or huge dimensions; every rectangle passed below is the bounds of
  an image or the result of \<open>image.Rect\<close>.)
\<close>

definition image_NewRGBA :: "rectangle \<Rightarrow> image" where
  "image_NewRGBA r =
     \<lparr>Kind = RGBA, Pix = replicate (nat (4 * Dx r * Dy r)) 0, Stride = 4 * Dx r, Rect = r\<rparr>"

definition image_NewPaletted :: "rectangle \<Rightarrow> image" where
  "image_NewPaletted r =
     \<lparr>Kind = Paletted, Pix = replicate (nat (Dx r * Dy r)) 0, Stride = Dx r, Rect = r\<rparr>"

text \<open>Integer division of Go truncates towards zero.\<close>

definition quo :: "int \<Rightarrow> int \<Rightarrow> int" where
  "quo a b = sgn a * sgn b * (\<bar>a\<bar> div \<bar>b\<bar>)"

text \<open>The conversion \<open>int(x)\<close> of a \<open>float64\<close> drops the fraction.\<close>

definition int_of_f64 :: "lib \<Rightarrow> f64 \<Rightarrow> int" where
  "int_of_f64 L x =
     (case x of
        Fin r \<Rightarrow>
          (let i = (if 0 \<le> r then \<lfloor>r\<rfloor> else \<lceil>r\<rceil>)
           in if - (2 ^ 63) \<le> i \<and> i < 2 ^ 63 then i else int_of_f64_other L x)
      | _ \<Rightarrow> int_of_f64_other L x)"

section \<open>Watermark compositor\<close>

definition FindDominantColor :: "lib \<Rightarrow> image \<Rightarrow> string" where
  "FindDominantColor L img = dominantcolor_Hex_Find L img"

fun remove_first :: "char \<Rightarrow> string \<Rightarrow> string" where
  \<comment> \<open>\<open>strings.Replace(s, "#", "", 1)\<close> for a one-character pattern\<close>
  "remove_first x [] = []"
| "remove_first x (c # cs) = (if c = x then cs else c # remove_first x cs)"

text \<open>
  The two dropped errors of \<open>createWatermark\<close>: a failed \<open>Hex2RGB\<close> leaves the zero
  color, a failed read of the watermark leaves a nil image, on which \<open>mark.Bounds()\<close>
  panics. What the function prints to the standard output is left out.
\<close>

definition createWatermark :: "lib \<Rightarrow> image \<Rightarrow> error + image" where
  "createWatermark L base =
     (let hex = remove_first (CHR ''#'') (FindDominantColor L base);
          rgb = (case Hex2RGB hex of
                   Inl _ \<Rightarrow> \<lparr>Red = 0, Green = 0, Blue = 0\<rparr>
                 | Inr c \<Rightarrow> c);
          list = [real (unat (Red rgb)), real (unat (Green rgb)), real (unat (Blue rgb))]
      in case FindLuminenace list of
           Inl e \<Rightarrow> Inl e
         | Inr status \<Rightarrow>
             (let markPath = (if status > 1.90 then ''watermark_colored.png''
                              else ''watermark.png'')
              in case open_png_Decode L markPath of
                   None \<Rightarrow> Inl (Panic NilDereference)
                 | Some mark \<Rightarrow>
                     (let baseBound = Bounds base;
                          markBound = Bounds mark;
                          offset = (quo (Dx baseBound) 2 - quo (Dx markBound) 2,
                                    quo (Dy baseBound) 2 - quo (Dy markBound) 2);
                          outputImage = image_NewRGBA baseBound;
                          outputImage = draw_Draw L outputImage (Bounds outputImage)
                                          base image_ZP Src;
                          outputImage = draw_DrawMask L outputImage
                                          (Rect_Add (Bounds mark) offset) mark image_ZP
                                          64 image_ZP Over
                      in Inr outputImage)))"

section \<open>Codec dispatcher\<close>

text \<open>
  \<open>encode\<close> appends to \<open>w\<close>: it takes the content of the writer and returns the content
  after the call, with the error. \<open>toBytes\<close> starts from an empty buffer and returns the
  buffer only when there is no error.
\<close>

definition append_to :: "bytes \<Rightarrow> bytes \<times> error option \<Rightarrow> bytes \<times> error option" where
  "append_to w r = (w @ fst r, snd r)"

definition encode :: "lib \<Rightarrow> bytes \<Rightarrow> image \<Rightarrow> Format \<Rightarrow> int \<Rightarrow> bytes \<times> error option" where
  "encode L w img format quality =
     (if format = JPEG then
        (let rgba = (if Kind img = NRGBA \<and> NRGBA_Opaque L img
                     then Some \<lparr>Kind = RGBA, Pix = Pix img, Stride = Stride img,
                                Rect = Rect img\<rparr>
                     else None)
         in case createWatermark L (case rgba of Some r \<Rightarrow> r | None \<Rightarrow> img) of
              Inl e \<Rightarrow> (w, Some e)
            | Inr marked \<Rightarrow> append_to w (jpeg_Encode L marked quality))
      else if format = PNG then append_to w (png_Encode L img)
      else if format = GIF then append_to w (gif_Encode L img 256)
      else if format = TIFF then append_to w (tiff_Encode L img)
      else if format = BMP then append_to w (bmp_Encode L img)
      else (w, Some ErrUnsupportedFormat))"

definition toBytes :: "lib \<Rightarrow> image \<Rightarrow> Format \<Rightarrow> int \<Rightarrow> error + bytes" where
  "toBytes L img format quality =
     (case encode L [] img format quality of
        (buf, Some err) \<Rightarrow> Inl err
      | (buf, None) \<Rightarrow> Inr buf)"

definition source :: "lib \<Rightarrow> ImageFile \<Rightarrow> error + image" where
  "source L img = decode L (Source img)"

section \<open>Single-frame transform dispatcher\<close>

definition flipTransformations :: "lib \<Rightarrow> string \<Rightarrow> imageTransformation option" where
  "flipTransformations L = [''h'' \<mapsto> imaging_FlipH L, ''v'' \<mapsto> imaging_FlipV L]"

definition rotateTransformations :: "lib \<Rightarrow> int \<Rightarrow> imageTransformation option" where
  "rotateTransformations L =
     [90 \<mapsto> imaging_Rotate90 L, 270 \<mapsto> imaging_Rotate270 L, 180 \<mapsto> imaging_Rotate180 L]"

definition Rotate :: "lib \<Rightarrow> ImageFile \<Rightarrow> Options \<Rightarrow> error + bytes" where
  "Rotate L img options =
     (case source L img of
        Inl err \<Rightarrow> Inl err
      | Inr image0 \<Rightarrow>
          (let deg = Degree options
           in case rotateTransformations L deg of
                None \<Rightarrow> Inl (InvalidRotate deg)
              | Some transform0 \<Rightarrow>
                  toBytes L (transform0 image0) (Format options) (Quality options)))"

definition Flip :: "lib \<Rightarrow> ImageFile \<Rightarrow> Options \<Rightarrow> error + bytes" where
  "Flip L img options =
     (case source L img of
        Inl err \<Rightarrow> Inl err
      | Inr image0 \<Rightarrow>
          (let pos = Position options
           in case flipTransformations L pos of
                None \<Rightarrow> Inl (InvalidFlip pos)
              | Some transform0 \<Rightarrow>
                  toBytes L (transform0 image0) (Format options) (Quality options)))"

definition transform :: "lib \<Rightarrow> image \<Rightarrow> Options \<Rightarrow> transformation \<Rightarrow> error + bytes" where
  "transform L img options transf =
     toBytes L (scale img options transf) (Format options) (Quality options)"

section \<open>Animation pipeline\<close>

definition imageToPaletted :: "lib \<Rightarrow> image \<Rightarrow> image" where
  "imageToPaletted L img =
     (let b = Bounds img;
          pm = image_NewPaletted b
      in FloydSteinberg_Draw L pm b img image_ZP)"

text \<open>
  The loop over the frames: \<open>im\<close> is the accumulator canvas, drawn on by every frame; the
  result is the new content of \<open>g.Image\<close>.
\<close>

fun transformGIF_frames ::
  "lib \<Rightarrow> Options \<Rightarrow> transformation \<Rightarrow> image \<Rightarrow> image list \<Rightarrow> image list" where
  "transformGIF_frames L options transf im [] = []"
| "transformGIF_frames L options transf im (frame # rest) =
     (let bounds = Bounds frame;
          im = draw_Draw L im bounds frame (Min_X bounds, Min_Y bounds) Over
      in imageToPaletted L (scale im options transf)
           # transformGIF_frames L options transf im rest)"

text \<open>The two assignments that fill in a zero width or height of the options.\<close>

definition fill_Width :: "lib \<Rightarrow> int \<Rightarrow> int \<Rightarrow> Options \<Rightarrow> Options" where
  "fill_Width L srcW srcH options =
     (if Width options = 0 then
        (let tmpW = f64_div (f64_mul (f64_of_int (Height options)) (f64_of_int srcW))
                      (f64_of_int srcH)
         in options\<lparr>Width :=
              int_of_f64 L (math_Max (Fin 1) (math_Floor (f64_add tmpW (Fin 0.5))))\<rparr>)
      else options)"

definition fill_Height :: "lib \<Rightarrow> int \<Rightarrow> int \<Rightarrow> Options \<Rightarrow> Options" where
  "fill_Height L srcW srcH options =
     (if Height options = 0 then
        (let tmpH = f64_div (f64_mul (f64_of_int (Width options)) (f64_of_int srcH))
                      (f64_of_int srcW)
         in options\<lparr>Height :=
              int_of_f64 L (math_Max (Fin 1) (math_Floor (f64_add tmpH (Fin 0.5))))\<rparr>)
      else options)"

text \<open>
  \<open>options\<close> is a pointer in Go and \<open>transformGIF\<close> assigns to its fields: the function
  returns the options as it leaves them, beside its result. The function is written in
  two parts, split after the early return.
\<close>

definition transformGIF_all ::
  "lib \<Rightarrow> ImageFile \<Rightarrow> image \<Rightarrow> Options \<Rightarrow> transformation \<Rightarrow> (error + bytes) \<times> Options" where
  \<comment> \<open>the body of \<open>transformGIF\<close> from \<open>gif.DecodeAll\<close> on\<close>
  "transformGIF_all L img first options transf =
     (case gif_DecodeAll L (Source img) of
        Inl err \<Rightarrow> (Inl err, options)
      | Inr g \<Rightarrow>
          (case Image g of
             [] \<Rightarrow> (Inl (Panic IndexOutOfRange), options)
           | frame0 # _ \<Rightarrow>
               (let firstFrame = Bounds frame0;
                    b = image_Rect 0 0 (Dx firstFrame) (Dy firstFrame);
                    im = image_NewRGBA b;
                    frames = transformGIF_frames L options transf im (Image g);
                    (srcW, srcH) = imageSize first;
                    options = fill_Width L srcW srcH options;
                    options = fill_Height L srcW srcH options;
                    g = g\<lparr>Image := frames,
                           Config_Height := Height options,
                           Config_Width := Width options\<rparr>
                in case gif_EncodeAll L g of
                     (buf, Some err) \<Rightarrow> (Inl err, options)
                   | (buf, None) \<Rightarrow> (Inr buf, options))))"

definition transformGIF ::
  "lib \<Rightarrow> ImageFile \<Rightarrow> Options \<Rightarrow> transformation \<Rightarrow> (error + bytes) \<times> Options" where
  "transformGIF L img options transf =
     (case gif_Decode L (Source img) of
        Inl err \<Rightarrow> (Inl err, options)
      | Inr first \<Rightarrow>
          (let factor = scalingFactorImage first (Width options) (Height options)
           in if f64_greater factor (Fin 1) \<and> \<not> Upscale options
              then (Inr (Source img), options)
              else transformGIF_all L img first options transf))"

section \<open>The operations\<close>

definition resize ::
  "lib \<Rightarrow> ImageFile \<Rightarrow> Options \<Rightarrow> transformation \<Rightarrow> (error + bytes) \<times> Options" where
  "resize L img options transf =
     (if Format options = GIF then
        (case transformGIF L img options transf of
           (Inl err, options) \<Rightarrow> (Inl err, options)
         | (Inr content, options) \<Rightarrow> (Inr content, options))
      else
        (case source L img of
           Inl err \<Rightarrow> (Inl err, options)
         | Inr image0 \<Rightarrow> (transform L image0 options transf, options)))"

definition Resize :: "lib \<Rightarrow> ImageFile \<Rightarrow> Options \<Rightarrow> (error + bytes) \<times> Options" where
  "Resize L img options = resize L img options (imaging_Resize L)"

definition Thumbnail :: "lib \<Rightarrow> ImageFile \<Rightarrow> Options \<Rightarrow> (error + bytes) \<times> Options" where
  "Thumbnail L img options = resize L img options (imaging_Thumbnail L)"

definition Fit :: "lib \<Rightarrow> ImageFile \<Rightarrow> Options \<Rightarrow> (error + bytes) \<times> Options" where
  "Fit L img options =
     (if Format options = GIF then
        (case transformGIF L img options (imaging_Thumbnail L) of
           (Inl err, options) \<Rightarrow> (Inl err, options)
         | (Inr content, options) \<Rightarrow> (Inr content, options))
      else
        (case source L img of
           Inl err \<Rightarrow> (Inl err, options)
         | Inr image0 \<Rightarrow> (transform L image0 options (imaging_Fit L), options)))"


section \<open>A miniature library\<close>

text \<open>
  One instance of the record of library functions, small enough to run the pipeline on
  concrete inputs. It stands for no real codec: an encoded image is the first byte of
  the format's signature followed by a width and a height, an encoded animation is the
  signature byte, the size of the canvas and the sizes of the frames. The resampling
  primitives compute the size of their result as \<open>imaging\<close> does and no pixel.
\<close>

definition mini_image :: "int \<Rightarrow> int \<Rightarrow> image" where
  "mini_image w h =
     \<lparr>Kind = NRGBA, Pix = [], Stride = 4 * w,
      Rect = \<lparr>Min_X = 0, Min_Y = 0, Max_X = w, Max_Y = h\<rparr>\<rparr>"

fun mini_frames :: "bytes \<Rightarrow> image list" where
  "mini_frames (w # h # rest) = mini_image (uint w) (uint h) # mini_frames rest"
| "mini_frames _ = []"

definition mini_gif_DecodeAll :: "bytes \<Rightarrow> error + gif" where
  "mini_gif_DecodeAll bs =
     (case bs of
        t # cw # ch # rest \<Rightarrow>
          if t = 0x47 \<and> mini_frames rest \<noteq> []
          then Inr \<lparr>Image = mini_frames rest, Delay = [], LoopCount = 0, Disposal = [],
                    Config_Width = uint cw, Config_Height = uint ch, BackgroundIndex = 0\<rparr>
          else Inl (LibraryError 1)
      | _ \<Rightarrow> Inl (LibraryError 1))"

definition mini_gif_Decode :: "bytes \<Rightarrow> error + image" where
  "mini_gif_Decode bs =
     (case mini_gif_DecodeAll bs of Inl e \<Rightarrow> Inl e | Inr g \<Rightarrow> Inr (hd (Image g)))"

definition mini_decode :: "bytes \<Rightarrow> error + image" where
  "mini_decode bs =
     (case bs of
        t # w # h # rest \<Rightarrow>
          if t = 0x47 then mini_gif_Decode bs
          else if t = 0xFF \<or> t = 0x89 \<or> t = 0x49 \<or> t = 0x42
          then Inr (mini_image (uint w) (uint h))
          else Inl (LibraryError 1)
      | _ \<Rightarrow> Inl (LibraryError 1))"

definition mini_dims :: "image \<Rightarrow> bytes" where
  "mini_dims i = [of_int (Max_X (Rect i)), of_int (Max_Y (Rect i))]"

definition mini_encode :: "8 word \<Rightarrow> image \<Rightarrow> bytes \<times> error option" where
  "mini_encode t i = (t # mini_dims i, None)"

definition mini_gif_EncodeAll :: "gif \<Rightarrow> bytes \<times> error option" where
  "mini_gif_EncodeAll g =
     (0x47 # of_int (Config_Width g) # of_int (Config_Height g)
        # concat (map mini_dims (Image g)), None)"

definition mini_Resize :: transformation where
  "mini_Resize i w h f = mini_image w h"

definition mini_Fit :: transformation where
  "mini_Fit i w h f =
     (let sw = Max_X (Rect i); sh = Max_Y (Rect i)
      in if sw \<le> w \<and> sh \<le> h then i
         else if sw * h > w * sh then mini_image w (quo (w * sh) sw)
         else mini_image (quo (h * sw) sh) h)"

definition mini_Rotate90 :: imageTransformation where
  "mini_Rotate90 i = mini_image (Max_Y (Rect i)) (Max_X (Rect i))"

definition mini_lib :: lib where
  "mini_lib =
     \<lparr>decode = mini_decode,
      gif_Decode = mini_gif_Decode,
      gif_DecodeAll = mini_gif_DecodeAll,
      gif_EncodeAll = mini_gif_EncodeAll,
      jpeg_Encode = (\<lambda>i q. mini_encode 0xFF i),
      png_Encode = mini_encode 0x89,
      gif_Encode = (\<lambda>i n. mini_encode 0x47 i),
      tiff_Encode = mini_encode 0x49,
      bmp_Encode = mini_encode 0x42,
      open_png_Decode = (\<lambda>path. Some (mini_image 4 4)),
      imaging_Resize = mini_Resize,
      imaging_Thumbnail = mini_Resize,
      imaging_Fit = mini_Fit,
      imaging_FlipH = (\<lambda>i. i),
      imaging_FlipV = (\<lambda>i. i),
      imaging_Rotate90 = mini_Rotate90,
      imaging_Rotate180 = (\<lambda>i. i),
      imaging_Rotate270 = mini_Rotate90,
      NRGBA_Opaque = (\<lambda>i. True),
      draw_Draw = (\<lambda>dst r src sp op. dst),
      draw_DrawMask = (\<lambda>dst r src sp mask mp op. dst),
      FloydSteinberg_Draw = (\<lambda>dst r src sp. dst),
      dominantcolor_Hex_Find = (\<lambda>i. ''#FFFFFF''),
      int_of_f64_other = (\<lambda>x. - (2 ^ 63))\<rparr>"


section \<open>Properties\<close>

lemma mini_lib_sel:
  "decode mini_lib = mini_decode"
  "gif_Decode mini_lib = mini_gif_Decode"
  "gif_DecodeAll mini_lib = mini_gif_DecodeAll"
  "gif_EncodeAll mini_lib = mini_gif_EncodeAll"
  "jpeg_Encode mini_lib = (\<lambda>i q. mini_encode 0xFF i)"
  "png_Encode mini_lib = mini_encode 0x89"
  "gif_Encode mini_lib = (\<lambda>i n. mini_encode 0x47 i)"
  "tiff_Encode mini_lib = mini_encode 0x49"
  "bmp_Encode mini_lib = mini_encode 0x42"
  "open_png_Decode mini_lib = (\<lambda>path. Some (mini_image 4 4))"
  "imaging_Resize mini_lib = mini_Resize"
  "imaging_Thumbnail mini_lib = mini_Resize"
  "imaging_Fit mini_lib = mini_Fit"
  "imaging_FlipH mini_lib = (\<lambda>i. i)"
  "imaging_FlipV mini_lib = (\<lambda>i. i)"
  "imaging_Rotate90 mini_lib = mini_Rotate90"
  "imaging_Rotate180 mini_lib = (\<lambda>i. i)"
  "imaging_Rotate270 mini_lib = mini_Rotate90"
  "NRGBA_Opaque mini_lib = (\<lambda>i. True)"
  "draw_Draw mini_lib = (\<lambda>dst r src sp op. dst)"
  "draw_DrawMask mini_lib = (\<lambda>dst r src sp mask mp op. dst)"
  "FloydSteinberg_Draw mini_lib = (\<lambda>dst r src sp. dst)"
  "dominantcolor_Hex_Find mini_lib = (\<lambda>i. ''#FFFFFF'')"
  "int_of_f64_other mini_lib = (\<lambda>x. - (2 ^ 63))"
  by (simp_all add: mini_lib_def)

lemmas mini_defs =
  mini_lib_sel mini_image_def mini_gif_DecodeAll_def mini_gif_Decode_def mini_decode_def
  mini_dims_def mini_encode_def mini_gif_EncodeAll_def mini_Resize_def mini_Fit_def
  mini_Rotate90_def

lemmas format_defs = JPEG_def PNG_def GIF_def TIFF_def BMP_def

subsection \<open>Scaling policy\<close>

text \<open>
  With positive source dimensions no division is by zero, and the factor is the finite
  maximum of the two quotients. It is below 1 exactly when the box is smaller than the
  source in both directions, and above 1 exactly when it is larger in one.
\<close>

lemma scalingFactor_finite:
  assumes "0 < srcWidth" "0 < srcHeight"
  shows "scalingFactor srcWidth srcHeight destWidth destHeight =
           Fin (max (real_of_int destWidth / real_of_int srcWidth)
                    (real_of_int destHeight / real_of_int srcHeight))"
  using assms by (simp add: scalingFactor_def f64_of_int_def)

lemma scalingFactor_less_1_iff:
  assumes "0 < srcWidth" "0 < srcHeight"
  shows "f64_less (scalingFactor srcWidth srcHeight destWidth destHeight) (Fin 1)
           \<longleftrightarrow> destWidth < srcWidth \<and> destHeight < srcHeight"
  using assms by (simp add: scalingFactor_finite)

lemma scalingFactor_greater_1_iff:
  assumes "0 < srcWidth" "0 < srcHeight"
  shows "f64_greater (scalingFactor srcWidth srcHeight destWidth destHeight) (Fin 1)
           \<longleftrightarrow> srcWidth < destWidth \<or> srcHeight < destHeight"
  using assms by (simp add: scalingFactor_finite f64_greater_def less_max_iff_disj)

text \<open>
  Claim C6. The scale step applies the resample transform if and only if the scale factor
  is strictly less than 1 or the upscale-allowed flag is set, and otherwise returns the
  original raster unchanged: with the flag set the transform is always applied, with the
  flag clear it is applied exactly when the factor is below 1, which for an image of
  positive size is when the box is smaller than the image in both directions.
\<close>

theorem scale_applies_iff:
  "(Upscale options \<longrightarrow>
      scale img options transf = transf img (Width options) (Height options) Lanczos) \<and>
   (\<not> Upscale options \<longrightarrow>
      scale img options transf =
        (if f64_less (scalingFactorImage img (Width options) (Height options)) (Fin 1)
         then transf img (Width options) (Height options) Lanczos
         else img)) \<and>
   (\<not> Upscale options \<and> 0 < Max_X (Bounds img) \<and> 0 < Max_Y (Bounds img) \<longrightarrow>
      scale img options transf =
        (if Width options < Max_X (Bounds img) \<and> Height options < Max_Y (Bounds img)
         then transf img (Width options) (Height options) Lanczos
         else img))"
proof (intro conjI impI)
  assume "Upscale options"
  then show "scale img options transf = transf img (Width options) (Height options) Lanczos"
    by (simp add: scale_def)
next
  assume "\<not> Upscale options"
  then show "scale img options transf =
        (if f64_less (scalingFactorImage img (Width options) (Height options)) (Fin 1)
         then transf img (Width options) (Height options) Lanczos
         else img)"
    by (simp add: scale_def)
next
  assume "\<not> Upscale options \<and> 0 < Max_X (Bounds img) \<and> 0 < Max_Y (Bounds img)"
  then show "scale img options transf =
        (if Width options < Max_X (Bounds img) \<and> Height options < Max_Y (Bounds img)
         then transf img (Width options) (Height options) Lanczos
         else img)"
    by (simp add: scale_def scalingFactorImage_def imageSize_def scalingFactor_less_1_iff)
qed

theorem scale_applies_iff_witness:
  "scale (mini_image 100 50)
     \<lparr>Upscale = True, Format = PNG, Quality = 80, Width = 200, Height = 100,
      Position = [], Degree = 0\<rparr> mini_Resize = mini_image 200 100 \<and>
   scale (mini_image 100 50)
     \<lparr>Upscale = False, Format = PNG, Quality = 80, Width = 200, Height = 100,
      Position = [], Degree = 0\<rparr> mini_Resize = mini_image 100 50 \<and>
   scale (mini_image 100 50)
     \<lparr>Upscale = False, Format = PNG, Quality = 80, Width = 20, Height = 10,
      Position = [], Degree = 0\<rparr> mini_Resize = mini_image 20 10"
  using scale_applies_iff [of "\<lparr>Upscale = True, Format = PNG, Quality = 80, Width = 200,
      Height = 100, Position = [], Degree = 0\<rparr>" "mini_image 100 50" mini_Resize]
    scale_applies_iff [of "\<lparr>Upscale = False, Format = PNG, Quality = 80, Width = 200,
      Height = 100, Position = [], Degree = 0\<rparr>" "mini_image 100 50" mini_Resize]
    scale_applies_iff [of "\<lparr>Upscale = False, Format = PNG, Quality = 80, Width = 20,
      Height = 10, Position = [], Degree = 0\<rparr>" "mini_image 100 50" mini_Resize]
  by (simp add: scalingFactorImage_def imageSize_def Bounds_def mini_image_def
        mini_Resize_def scalingFactor_finite)

text \<open>
  Claim C7. For all positive source dimensions and all destination dimensions,
  \<open>scalingFactor\<close> is the maximum of the width quotient and the height quotient; a
  100 by 50 source with destination 50 by 50 has factor 1, and with upscale disabled
  \<open>scale\<close> returns that image unscaled.
\<close>

theorem scalingFactor_is_max:
  "(0 < srcWidth \<and> 0 < srcHeight \<longrightarrow>
      scalingFactor srcWidth srcHeight destWidth destHeight =
        Fin (max (real_of_int destWidth / real_of_int srcWidth)
                 (real_of_int destHeight / real_of_int srcHeight))) \<and>
   scalingFactor 100 50 50 50 = Fin 1 \<and>
   (imageSize img = (100, 50) \<and> Width options = 50 \<and> Height options = 50 \<and>
    \<not> Upscale options \<longrightarrow> scale img options transf = img)"
proof (intro conjI impI)
  show "scalingFactor 100 50 50 50 = Fin 1"
    by (simp add: scalingFactor_finite)
next
  assume "0 < srcWidth \<and> 0 < srcHeight"
  then show "scalingFactor srcWidth srcHeight destWidth destHeight =
        Fin (max (real_of_int destWidth / real_of_int srcWidth)
                 (real_of_int destHeight / real_of_int srcHeight))"
    by (simp add: scalingFactor_finite)
next
  assume "imageSize img = (100, 50) \<and> Width options = 50 \<and> Height options = 50 \<and>
    \<not> Upscale options"
  then show "scale img options transf = img"
    by (simp add: scale_def scalingFactorImage_def scalingFactor_finite)
qed

theorem scalingFactor_is_max_witness:
  "scalingFactor 200 100 50 80 = Fin (4 / 5) \<and>
   scale (mini_image 100 50)
     \<lparr>Upscale = False, Format = PNG, Quality = 80, Width = 50, Height = 50,
      Position = [], Degree = 0\<rparr> mini_Resize = mini_image 100 50"
  using scalingFactor_is_max [of 200 100 50 80 "mini_image 100 50"
     "\<lparr>Upscale = False, Format = PNG, Quality = 80, Width = 50, Height = 50,
      Position = [], Degree = 0\<rparr>" mini_Resize]
  by (simp add: imageSize_def Bounds_def mini_image_def)

subsection \<open>Relative luminance\<close>

lemma FindLuminenace_loop_Cons:
  "FindLuminenace_loop (v # rest) =
     Some (if v / 255 \<le> 0.03928 then v / 255 / 12.92 else (v / 255 + 0.55) / 1.055 * 2)"
  by (simp add: Let_def)

text \<open>
  Claim C10. \<open>FindLuminenace\<close> returns a value on every channel list with at least one
  element, and the value depends on the first element only: the loop returns in its first
  iteration in both branches, so the weighted sum after the loop is not reached. On the
  empty list the loop ends at once and the indexing after it is out of range.
\<close>

theorem FindLuminenace_first_only:
  "(items \<noteq> [] \<longrightarrow>
      FindLuminenace_loop items \<noteq> None \<and>
      FindLuminenace items = FindLuminenace [hd items] \<and>
      FindLuminenace items =
        Inr (if hd items / 255 \<le> 0.03928 then hd items / 255 / 12.92
             else (hd items / 255 + 0.55) / 1.055 * 2)) \<and>
   FindLuminenace [] = Inl (Panic IndexOutOfRange)"
proof (cases items)
  case Nil
  then show ?thesis by (simp add: FindLuminenace_def at_index_def)
next
  case (Cons v rest)
  have r: "FindLuminenace (v # rest) =
      Inr (if v / 255 \<le> 0.03928 then v / 255 / 12.92 else (v / 255 + 0.55) / 1.055 * 2)"
    for rest
    by (simp only: FindLuminenace_def FindLuminenace_loop_Cons option.case)
  have e: "FindLuminenace [] = Inl (Panic IndexOutOfRange)"
    by (simp add: FindLuminenace_def at_index_def)
  have l: "FindLuminenace_loop (v # rest) \<noteq> None"
    by (simp only: FindLuminenace_loop_Cons) simp
  show ?thesis
    unfolding Cons list.sel using r [of rest] r [of "[]"] e l by simp
qed

theorem FindLuminenace_first_only_witness:
  "FindLuminenace [255, 0, 0] = FindLuminenace [255] \<and>
   FindLuminenace [255, 0, 0] = Inr (620 / 211) \<and>
   FindLuminenace_loop [255, 0, 0] \<noteq> None"
  using FindLuminenace_first_only [of "[255, 0, 0]"] by (simp add: FindLuminenace_def)

text \<open>
  Claim C3. For a 3-channel list \<open>FindLuminenace\<close> should compute the piecewise
  correction of each of the three channels and their sum weighted by 0.2126, 0.7152 and
  0.0722. It does not: on the channels 0, 255, 255 it returns 0, the corrected first
  channel alone, where the contract gives 0.7874.
\<close>

theorem FindLuminenace_not_weighted_sum:
  "FindLuminenace [0, 255, 255] = Inr 0 \<and>
   spec_relative_luminance 0 255 255 = 0.7874"
  by (simp add: FindLuminenace_def spec_relative_luminance_def spec_channel_def)

subsection \<open>Rotate and Flip\<close>

text \<open>
  Claim C8. On every input that decodes, \<open>Rotate\<close> with a degree other than 90, 180 and
  270 fails with the unsupported-degree error and \<open>Flip\<close> with a position other than
  "h" and "v" fails with the unsupported-axis error; a failure carries no output bytes.
\<close>

theorem Rotate_Flip_unsupported:
  "(decode L (Source img) = Inr im \<and> Degree options \<notin> {90, 180, 270} \<longrightarrow>
      Rotate L img options = Inl (InvalidRotate (Degree options))) \<and>
   (decode L (Source img) = Inr im \<and> Position options \<notin> {''h'', ''v''} \<longrightarrow>
      Flip L img options = Inl (InvalidFlip (Position options)))"
  by (simp add: Rotate_def Flip_def source_def rotateTransformations_def
        flipTransformations_def)

theorem Rotate_Flip_unsupported_witness:
  "decode mini_lib [0x89, 10, 20] = Inr (mini_image 10 20) \<and>
   Rotate mini_lib \<lparr>Source = [0x89, 10, 20]\<rparr>
     \<lparr>Upscale = False, Format = PNG, Quality = 80, Width = 0, Height = 0,
      Position = ''diagonal'', Degree = 45\<rparr> = Inl (InvalidRotate 45) \<and>
   Flip mini_lib \<lparr>Source = [0x89, 10, 20]\<rparr>
     \<lparr>Upscale = False, Format = PNG, Quality = 80, Width = 0, Height = 0,
      Position = ''diagonal'', Degree = 45\<rparr> = Inl (InvalidFlip ''diagonal'')"
proof -
  have d: "decode mini_lib [0x89, 10, 20] = Inr (mini_image 10 20)"
    by (simp add: mini_defs)
  show ?thesis
    using d Rotate_Flip_unsupported [of mini_lib "\<lparr>Source = [0x89, 10, 20]\<rparr>"
      "mini_image 10 20" "\<lparr>Upscale = False, Format = PNG, Quality = 80, Width = 0,
      Height = 0, Position = ''diagonal'', Degree = 45\<rparr>"]
    by simp
qed

subsection \<open>encode\<close>

text \<open>
  Claim C9. For every raster and quality, \<open>encode\<close> with a format other than the five
  supported ones fails with the unsupported-format error and writes nothing; and whenever
  \<open>encode\<close> fails, \<open>toBytes\<close> returns the error and no bytes, while on success it
  returns the whole buffer.
\<close>

theorem encode_unsupported_format:
  "(format \<notin> {JPEG, PNG, GIF, TIFF, BMP} \<longrightarrow>
      encode L w img format quality = (w, Some ErrUnsupportedFormat) \<and>
      toBytes L img format quality = Inl ErrUnsupportedFormat) \<and>
   (\<forall>err. snd (encode L [] img format quality) = Some err \<longrightarrow>
      toBytes L img format quality = Inl err) \<and>
   (snd (encode L [] img format quality) = None \<longrightarrow>
      toBytes L img format quality = Inr (fst (encode L [] img format quality)))"
  by (auto simp: encode_def toBytes_def split: prod.splits option.splits)

theorem encode_unsupported_format_witness:
  "encode mini_lib [1, 2] (mini_image 3 4) 5 80 = ([1, 2], Some ErrUnsupportedFormat) \<and>
   toBytes mini_lib (mini_image 3 4) 5 80 = Inl ErrUnsupportedFormat \<and>
   toBytes mini_lib (mini_image 3 4) PNG 80 = Inr [0x89, 3, 4]"
proof -
  have e: "encode mini_lib [] (mini_image 3 4) PNG 80 = ([0x89, 3, 4], None)"
    by (simp add: encode_def append_to_def format_defs mini_defs)
  show ?thesis
    using encode_unsupported_format [of 5 mini_lib "[1, 2]" "mini_image 3 4" 80]
      encode_unsupported_format [of PNG mini_lib "[]" "mini_image 3 4" 80] e
    by (simp add: format_defs)
qed

subsection \<open>Hex2RGB parses 32 bits\<close>

lemma digit_hexdigit_all:
  "\<forall>c. (case digit (of_char c) of
          None \<Rightarrow> None
        | Some d \<Rightarrow> if d \<ge> 16 then None else Some (unat d)) = hexdigit c"
  by code_simp

lemma digit_None:
  "hexdigit c = None \<Longrightarrow>
     digit (of_char c) = None \<or> (\<exists>d. digit (of_char c) = Some d \<and> d \<ge> 16)"
  using digit_hexdigit_all [rule_format, of c] by (auto split: option.splits if_splits)

lemma digit_Some:
  "hexdigit c = Some k \<Longrightarrow> \<exists>d. digit (of_char c) = Some d \<and> \<not> d \<ge> 16 \<and> unat d = k"
  using digit_hexdigit_all [rule_format, of c] by (auto split: option.splits if_splits)

lemma unat_step:
  fixes n :: "64 word" and d :: "8 word"
  assumes "unat n < 2 ^ 32" "\<not> d \<ge> 16"
  shows "unat (n * 16 + ucast d) = 16 * unat n + unat d"
    and "unat (n * 16) = 16 * unat n"
proof -
  have d: "unat d < 16" using assms(2) by (simp add: word_le_nat_alt)
  have m: "unat (n * 16) = 16 * unat n"
    using assms(1) by (simp add: unat_word_ariths)
  have u: "unat (ucast d :: 64 word) = unat d"
  proof -
    have "unat d < 2 ^ 64" using d by simp
    then show ?thesis by (simp add: unsigned_ucast_eq take_bit_nat_eq_self)
  qed
  show "unat (n * 16) = 16 * unat n" by (rule m)
  show "unat (n * 16 + ucast d) = 16 * unat n + unat d"
    using assms(1) d by (simp add: unat_word_ariths m u)
qed

lemma not_cutoff: "unat (n :: 64 word) < 2 ^ 32 \<Longrightarrow> \<not> n \<ge> cutoff"
  by (simp add: cutoff_def word_le_nat_alt)

lemma unat_maxVal: "unat maxVal = 2 ^ 32 - 1"
  by (simp add: maxVal_def)

lemma foldl_hex_step_mono: "m \<le> foldl hex_step m s"
proof (induction s arbitrary: m)
  case Nil
  show ?case by simp
next
  case (Cons c cs)
  have "m \<le> hex_step m c" by (simp add: hex_step_def)
  also have "\<dots> \<le> foldl hex_step (hex_step m c) cs" by (rule Cons.IH)
  finally show ?case by simp
qed

lemma ParseUint_loop_step:
  fixes n :: "64 word"
  assumes n: "unat n < 2 ^ 32" and c: "hexdigit c = Some k"
  shows "ParseUint_loop (of_char c # cs) n =
           (if hex_step (unat n) c < 2 ^ 32
            then ParseUint_loop cs (of_nat (hex_step (unat n) c))
            else Inl ErrRange)"
proof -
  obtain d where d: "digit (of_char c) = Some d" "\<not> d \<ge> 16" "unat d = k"
    using digit_Some [OF c] by blast
  let ?n1 = "n * 16 + ucast d"
  have u1: "unat ?n1 = 16 * unat n + k" and u0: "unat (n * 16) = 16 * unat n"
    using unat_step [OF n d(2)] d(3) by simp_all
  have hs: "hex_step (unat n) c = 16 * unat n + k"
    by (simp add: hex_step_def c)
  have w: "?n1 = of_nat (hex_step (unat n) c)"
    unfolding hs u1 [symmetric] by simp
  have lt: "\<not> ?n1 < n * 16"
    by (simp add: word_less_nat_alt u1 u0)
  have gt: "?n1 > maxVal \<longleftrightarrow> \<not> hex_step (unat n) c < 2 ^ 32"
  proof -
    have "(4294967295 < 16 * unat n + k) = (\<not> 16 * unat n + k < 4294967296)" by arith
    then show ?thesis by (simp add: word_less_nat_alt u1 unat_maxVal hs)
  qed
  show ?thesis
    using d(1,2) not_cutoff [OF n] lt gt w by (simp add: Let_def)
qed

lemma ParseUint_loop_ok:
  fixes n :: "64 word"
  shows "unat n < 2 ^ 32 \<Longrightarrow> hex_digits s \<Longrightarrow> foldl hex_step (unat n) s < 2 ^ 32 \<Longrightarrow>
    ParseUint_loop (map of_char s) n = Inr (of_nat (foldl hex_step (unat n) s))"
proof (induction s arbitrary: n)
  case Nil
  then show ?case by simp
next
  case (Cons c cs)
  from Cons.prems(2) obtain k where k: "hexdigit c = Some k" and cs: "hex_digits cs"
    by (auto simp: hex_digits_def)
  let ?m = "hex_step (unat n) c"
  have "?m \<le> foldl hex_step ?m cs" by (rule foldl_hex_step_mono)
  with Cons.prems(3) have m: "?m < 2 ^ 32" by simp
  then have um: "unat (of_nat ?m :: 64 word) = ?m"
    by (simp add: unat_of_nat)
  have "ParseUint_loop (map of_char (c # cs)) n = ParseUint_loop (map of_char cs) (of_nat ?m)"
    using ParseUint_loop_step [OF Cons.prems(1) k] m by simp
  also have "\<dots> = Inr (of_nat (foldl hex_step (unat (of_nat ?m :: 64 word)) cs))"
    using Cons.prems(3) m cs by (intro Cons.IH) (simp_all add: um)
  finally show ?case by (simp add: um)
qed

lemma ParseUint_loop_err:
  fixes n :: "64 word"
  shows "unat n < 2 ^ 32 \<Longrightarrow> \<not> (hex_digits s \<and> foldl hex_step (unat n) s < 2 ^ 32) \<Longrightarrow>
    isl (ParseUint_loop (map of_char s) n)"
proof (induction s arbitrary: n)
  case Nil
  then show ?case by (simp add: hex_digits_def)
next
  case (Cons c cs)
  show ?case
  proof (cases "hexdigit c")
    case None
    then show ?thesis using digit_None [OF None] by auto
  next
    case (Some k)
    let ?m = "hex_step (unat n) c"
    show ?thesis
    proof (cases "?m < 2 ^ 32")
      case False
      then show ?thesis using ParseUint_loop_step [OF Cons.prems(1) Some] by simp
    next
      case True
      then have um: "unat (of_nat ?m :: 64 word) = ?m"
        by (simp add: unat_of_nat)
      have "\<not> (hex_digits cs \<and> foldl hex_step (unat (of_nat ?m :: 64 word)) cs < 2 ^ 32)"
        using Cons.prems(2) Some by (simp add: um hex_digits_def)
      then have "isl (ParseUint_loop (map of_char cs) (of_nat ?m))"
        using True by (intro Cons.IH) (simp_all add: um)
      then show ?thesis using ParseUint_loop_step [OF Cons.prems(1) Some] True by simp
    qed
  qed
qed

lemma ParseUint_ok:
  assumes "valid_hex s" "hex_value s < 2 ^ 32"
  shows "ParseUint_16_32 s = Inr (of_nat (hex_value s))"
  using assms ParseUint_loop_ok [of 0 s]
  by (simp add: ParseUint_16_32_def valid_hex_def hex_value_def)

lemma ParseUint_err:
  assumes "\<not> (valid_hex s \<and> hex_value s < 2 ^ 32)"
  shows "isl (ParseUint_16_32 s)"
  using assms ParseUint_loop_err [of 0 s]
  by (auto simp: ParseUint_16_32_def valid_hex_def hex_value_def)

lemma channels_of_nat:
  fixes v :: nat
  assumes "v < 2 ^ 32"
  shows "unat (ucast (drop_bit 16 (of_nat v :: 64 word)) :: 8 word) = v div 2 ^ 16 mod 2 ^ 8"
    and "unat (ucast (drop_bit 8 (of_nat v :: 64 word) AND 0xFF) :: 8 word) = v div 2 ^ 8 mod 2 ^ 8"
    and "unat (ucast ((of_nat v :: 64 word) AND 0xFF) :: 8 word) = v mod 2 ^ 8"
proof -
  have v: "unat (of_nat v :: 64 word) = v"
    using assms by (simp add: unat_of_nat)
  have m: "(0xFF :: 64 word) = mask 8" by (simp add: mask_eq_exp_minus_1)
  have d16: "unat (drop_bit 16 (of_nat v :: 64 word)) = v div 2 ^ 16"
    unfolding unat_drop_bit_eq v by (rule drop_bit_eq_div)
  have d8: "unat (drop_bit 8 (of_nat v :: 64 word)) = v div 2 ^ 8"
    unfolding unat_drop_bit_eq v by (rule drop_bit_eq_div)
  have uc: "unat (ucast w :: 8 word) = unat w mod 2 ^ 8" for w :: "64 word"
    by (simp add: unsigned_ucast_eq take_bit_eq_mod)
  have am: "unat (w AND mask 8) = unat w mod 2 ^ 8" for w :: "64 word"
  proof -
    have "w AND mask 8 = take_bit 8 w" by (simp only: take_bit_eq_mask)
    then have "unat (w AND mask 8) = take_bit 8 (unat w)"
      by (simp only: unsigned_take_bit_eq)
    then show ?thesis by (simp only: take_bit_eq_mod)
  qed
  show "unat (ucast (drop_bit 16 (of_nat v :: 64 word)) :: 8 word) = v div 2 ^ 16 mod 2 ^ 8"
    by (simp only: uc d16)
  show "unat (ucast (drop_bit 8 (of_nat v :: 64 word) AND 0xFF) :: 8 word) = v div 2 ^ 8 mod 2 ^ 8"
    unfolding m by (simp only: uc am d8 mod_mod_trivial)
  show "unat (ucast ((of_nat v :: 64 word) AND 0xFF) :: 8 word) = v mod 2 ^ 8"
    unfolding m by (simp only: uc am v mod_mod_trivial)
qed


lemmas hex_defs = valid_hex_def hex_digits_def hex_value_def hex_step_def hexdigit_def

text \<open>
  Claim C4, as amended. \<open>Hex2RGB\<close> parses its input as a base-16 integer and takes Red
  from bits 16 to 23, Green from bits 8 to 15 and Blue from bits 0 to 7, so that "1a2b3c"
  gives Red 0x1a, Green 0x2b, Blue 0x3c. It returns an error for every string that is not
  valid base-16 or whose value does not fit 32 bits; a value that fits 32 bits is
  accepted, and its bits 24 to 31 are dropped.
\<close>

theorem Hex2RGB_32_bits:
  "(valid_hex s \<and> hex_value s < 2 ^ 32 \<longrightarrow>
      (\<exists>c. Hex2RGB s = Inr c \<and>
           unat (Red c) = hex_value s div 2 ^ 16 mod 2 ^ 8 \<and>
           unat (Green c) = hex_value s div 2 ^ 8 mod 2 ^ 8 \<and>
           unat (Blue c) = hex_value s mod 2 ^ 8)) \<and>
   (\<not> (valid_hex s \<and> hex_value s < 2 ^ 32) \<longrightarrow> isl (Hex2RGB s)) \<and>
   Hex2RGB ''1a2b3c'' = Inr \<lparr>Red = 0x1a, Green = 0x2b, Blue = 0x3c\<rparr>"
proof (intro conjI impI)
  assume a: "valid_hex s \<and> hex_value s < 2 ^ 32"
  then have p: "ParseUint_16_32 s = Inr (of_nat (hex_value s))"
    by (simp add: ParseUint_ok)
  show "\<exists>c. Hex2RGB s = Inr c \<and>
           unat (Red c) = hex_value s div 2 ^ 16 mod 2 ^ 8 \<and>
           unat (Green c) = hex_value s div 2 ^ 8 mod 2 ^ 8 \<and>
           unat (Blue c) = hex_value s mod 2 ^ 8"
    using a channels_of_nat [of "hex_value s"] by (simp add: Hex2RGB_def p)
next
  assume "\<not> (valid_hex s \<and> hex_value s < 2 ^ 32)"
  then have "isl (ParseUint_16_32 s)" by (rule ParseUint_err)
  then show "isl (Hex2RGB s)"
    by (cases "ParseUint_16_32 s") (simp_all add: Hex2RGB_def)
next
  show "Hex2RGB ''1a2b3c'' = Inr \<lparr>Red = 0x1a, Green = 0x2b, Blue = 0x3c\<rparr>"
    by code_simp
qed

theorem Hex2RGB_32_bits_witness:
  "valid_hex ''ff1a2b3c'' \<and> hex_value ''ff1a2b3c'' < 2 ^ 32 \<and>
   (\<exists>c. Hex2RGB ''ff1a2b3c'' = Inr c \<and> unat (Red c) = 0x1a \<and> unat (Green c) = 0x2b \<and>
        unat (Blue c) = 0x3c) \<and>
   \<not> valid_hex ''0x12'' \<and> isl (Hex2RGB ''0x12'') \<and>
   \<not> hex_value ''100000000'' < 2 ^ 32 \<and> isl (Hex2RGB ''100000000'')"
proof -
  have a: "valid_hex ''ff1a2b3c'' \<and> hex_value ''ff1a2b3c'' = 0xff1a2b3c"
    by (simp add: hex_defs)
  have b: "\<not> valid_hex ''0x12''" by (simp add: hex_defs)
  have c: "hex_value ''100000000'' = 2 ^ 32" by (simp add: hex_defs)
  show ?thesis
    using a b c Hex2RGB_32_bits [of "''ff1a2b3c''"] Hex2RGB_32_bits [of "''0x12''"]
      Hex2RGB_32_bits [of "''100000000''"]
    by simp
qed

text \<open>
  Claim C4 as stated asks for an error whenever the value exceeds 24 significant bits.
  The string "1000000" is valid base-16, its value is \<open>2 ^ 24\<close>, and it is accepted.
\<close>

theorem Hex2RGB_25_bits_accepted:
  "valid_hex ''1000000'' \<and> hex_value ''1000000'' = 2 ^ 24 \<and>
   Hex2RGB ''1000000'' = Inr \<lparr>Red = 0, Green = 0, Blue = 0\<rparr>"
proof -
  have "valid_hex ''1000000'' \<and> hex_value ''1000000'' = 2 ^ 24"
    by (simp add: hex_defs)
  moreover have "Hex2RGB ''1000000'' = Inr \<lparr>Red = 0, Green = 0, Blue = 0\<rparr>"
    by code_simp
  ultimately show ?thesis by simp
qed

subsection \<open>Pass-through\<close>

lemma Fit_GIF:
  "Format options = GIF \<Longrightarrow>
     Fit L img options = transformGIF L img options (imaging_Thumbnail L)"
  by (simp add: Fit_def split: prod.splits sum.splits)

lemma resize_GIF:
  "Format options = GIF \<Longrightarrow> resize L img options transf = transformGIF L img options transf"
  by (simp add: resize_def split: prod.splits sum.splits)

lemma transformGIF_early_exit:
  assumes "gif_Decode L (Source img) = Inr first"
    and "f64_greater (scalingFactorImage first (Width options) (Height options)) (Fin 1)"
    and "\<not> Upscale options"
  shows "transformGIF L img options transf = (Inr (Source img), options)"
  using assms by (simp add: transformGIF_def)

lemma transformGIF_no_exit:
  assumes "gif_Decode L (Source img) = Inr first"
    and "\<not> (f64_greater (scalingFactorImage first (Width options) (Height options)) (Fin 1)
            \<and> \<not> Upscale options)"
  shows "transformGIF L img options transf = transformGIF_all L img first options transf"
  using assms by (auto simp: transformGIF_def)

lemma scale_pass_through:
  assumes "\<not> f64_less (scalingFactorImage img (Width options) (Height options)) (Fin 1)"
    and "\<not> Upscale options"
  shows "scale img options transf = img"
  using assms by (simp add: scale_def)

text \<open>
  The test of the scale step and the test of the early return of the animation pipeline
  are each other's negation except at the factor 1 and at NaN.
\<close>

lemma f64_at_1:
  "(\<not> f64_less x (Fin 1)) \<noteq> f64_greater x (Fin 1) \<longleftrightarrow> x = Fin 1 \<or> x = NaN"
  by (cases x) (auto simp: f64_greater_def)

text \<open>
  Claim C1, as amended. In the animation pipeline, when the first frame decodes, the
  scale factor is above 1 and upscaling is not allowed, the caller's source bytes are
  returned as they are and the options are left as they were. In the single-frame path
  a pass-through of the scale step returns the encoding of the decoded raster in the
  requested format: the raster is unchanged, the bytes are encoded anew.
\<close>

theorem pass_through_results:
  "(Format options = GIF \<and> gif_Decode L (Source img) = Inr first \<and>
    f64_greater (scalingFactorImage first (Width options) (Height options)) (Fin 1) \<and>
    \<not> Upscale options \<longrightarrow>
      Fit L img options = (Inr (Source img), options) \<and>
      resize L img options transf = (Inr (Source img), options)) \<and>
   (Format options \<noteq> GIF \<and> decode L (Source img) = Inr im \<and>
    \<not> f64_less (scalingFactorImage im (Width options) (Height options)) (Fin 1) \<and>
    \<not> Upscale options \<longrightarrow>
      Fit L img options = (toBytes L im (Format options) (Quality options), options) \<and>
      resize L img options transf =
        (toBytes L im (Format options) (Quality options), options))"
proof (intro conjI impI)
  assume a: "Format options = GIF \<and> gif_Decode L (Source img) = Inr first \<and>
    f64_greater (scalingFactorImage first (Width options) (Height options)) (Fin 1) \<and>
    \<not> Upscale options"
  then have t: "transformGIF L img options t = (Inr (Source img), options)" for t
    by (simp add: transformGIF_early_exit)
  show "Fit L img options = (Inr (Source img), options)"
    using a by (simp add: Fit_GIF t)
  show "resize L img options transf = (Inr (Source img), options)"
    using a by (simp add: resize_GIF t)
next
  assume a: "Format options \<noteq> GIF \<and> decode L (Source img) = Inr im \<and>
    \<not> f64_less (scalingFactorImage im (Width options) (Height options)) (Fin 1) \<and>
    \<not> Upscale options"
  then have s: "scale im options t = im" for t
    by (simp add: scale_pass_through)
  show "Fit L img options = (toBytes L im (Format options) (Quality options), options)"
    using a by (simp add: Fit_def source_def transform_def s)
  show "resize L img options transf =
        (toBytes L im (Format options) (Quality options), options)"
    using a by (simp add: resize_def source_def transform_def s)
qed

lemma mini_png_10: "decode mini_lib [0x89, 10, 10] = Inr (mini_image 10 10)"
  by (simp add: mini_defs)

lemma mini_gif_10: "gif_Decode mini_lib [0x47, 10, 10, 10, 10] = Inr (mini_image 10 10)"
  by (simp add: mini_defs)

lemma mini_toBytes_BMP: "toBytes mini_lib (mini_image 10 10) BMP 80 = Inr [0x42, 10, 10]"
  by (simp add: toBytes_def encode_def append_to_def format_defs mini_defs)

theorem pass_through_results_witness:
  "Fit mini_lib \<lparr>Source = [0x47, 10, 10, 10, 10]\<rparr>
     \<lparr>Upscale = False, Format = GIF, Quality = 80, Width = 20, Height = 20,
      Position = [], Degree = 0\<rparr> =
     (Inr [0x47, 10, 10, 10, 10],
      \<lparr>Upscale = False, Format = GIF, Quality = 80, Width = 20, Height = 20,
       Position = [], Degree = 0\<rparr>) \<and>
   Fit mini_lib \<lparr>Source = [0x89, 10, 10]\<rparr>
     \<lparr>Upscale = False, Format = BMP, Quality = 80, Width = 10, Height = 10,
      Position = [], Degree = 0\<rparr> =
     (Inr [0x42, 10, 10],
      \<lparr>Upscale = False, Format = BMP, Quality = 80, Width = 10, Height = 10,
       Position = [], Degree = 0\<rparr>)"
proof -
  have f: "f64_greater (scalingFactorImage (mini_image 10 10) 20 20) (Fin 1)"
    "\<not> f64_less (scalingFactorImage (mini_image 10 10) 10 10) (Fin 1)"
    by (simp_all add: scalingFactorImage_def imageSize_def Bounds_def mini_image_def
          scalingFactor_greater_1_iff scalingFactor_less_1_iff)
  show ?thesis
    using f mini_png_10 mini_gif_10 mini_toBytes_BMP
      pass_through_results [of "\<lparr>Upscale = False, Format = GIF, Quality = 80, Width = 20,
        Height = 20, Position = [], Degree = 0\<rparr>" mini_lib
        "\<lparr>Source = [0x47, 10, 10, 10, 10]\<rparr>" "mini_image 10 10" mini_Resize
        "mini_image 10 10"]
      pass_through_results [of "\<lparr>Upscale = False, Format = BMP, Quality = 80, Width = 10,
        Height = 10, Position = [], Degree = 0\<rparr>" mini_lib
        "\<lparr>Source = [0x89, 10, 10]\<rparr>" "mini_image 10 10" mini_Resize
        "mini_image 10 10"]
    by (simp add: format_defs)
qed

text \<open>
  Claim C1 as stated asks \<open>Fit\<close> with a box equal to the current dimensions and upscale
  disabled to return the source bytes. On a 10 by 10 source in the PNG format with the
  BMP format requested, the result is the BMP encoding, not the source.
\<close>

theorem Fit_at_current_size_reencodes:
  "decode mini_lib [0x89, 10, 10] = Inr (mini_image 10 10) \<and>
   imageSize (mini_image 10 10) = (10, 10) \<and>
   fst (Fit mini_lib \<lparr>Source = [0x89, 10, 10]\<rparr>
     \<lparr>Upscale = False, Format = BMP, Quality = 80, Width = 10, Height = 10,
      Position = [], Degree = 0\<rparr>) = Inr [0x42, 10, 10] \<and>
   fst (Fit mini_lib \<lparr>Source = [0x89, 10, 10]\<rparr>
     \<lparr>Upscale = False, Format = BMP, Quality = 80, Width = 10, Height = 10,
      Position = [], Degree = 0\<rparr>) \<noteq> Inr [0x89, 10, 10]"
proof -
  have s: "scale (mini_image 10 10)
     \<lparr>Upscale = False, Format = f, Quality = 80, Width = 10, Height = 10,
      Position = [], Degree = 0\<rparr> t = mini_image 10 10" for t f
    by (simp add: scale_def scalingFactorImage_def imageSize_def Bounds_def mini_image_def
          scalingFactor_less_1_iff)
  have "Fit mini_lib \<lparr>Source = [0x89, 10, 10]\<rparr>
     \<lparr>Upscale = False, Format = BMP, Quality = 80, Width = 10, Height = 10,
      Position = [], Degree = 0\<rparr> = (Inr [0x42, 10, 10],
     \<lparr>Upscale = False, Format = BMP, Quality = 80, Width = 10, Height = 10,
      Position = [], Degree = 0\<rparr>)"
    using mini_png_10 mini_toBytes_BMP
    by (simp add: Fit_def source_def transform_def s format_defs)
  then show ?thesis
    using mini_png_10 by (simp add: imageSize_def Bounds_def mini_image_def)
qed

text \<open>
  Claim C2. The scale step and the early return of the animation pipeline should take the
  same decision. They do not when the factor is exactly 1 (or NaN) and upscaling is not
  allowed: the scale step returns the image unchanged, and the pipeline does not return
  early but goes on to decode, composite, dither and encode every frame.
\<close>

theorem scale_and_early_exit_differ:
  "gif_Decode L (Source img) = Inr first \<and>
   scalingFactorImage first (Width options) (Height options) \<in> {Fin 1, NaN} \<and>
   \<not> Upscale options \<longrightarrow>
     scale first options transf = first \<and>
     transformGIF L img options transf = transformGIF_all L img first options transf"
proof
  assume a: "gif_Decode L (Source img) = Inr first \<and>
   scalingFactorImage first (Width options) (Height options) \<in> {Fin 1, NaN} \<and>
   \<not> Upscale options"
  then have n: "\<not> f64_less (scalingFactorImage first (Width options) (Height options)) (Fin 1)"
    and g: "\<not> f64_greater (scalingFactorImage first (Width options) (Height options)) (Fin 1)"
    by (auto simp: f64_greater_def)
  show "scale first options transf = first \<and>
     transformGIF L img options transf = transformGIF_all L img first options transf"
    using a n g by (simp add: scale_pass_through transformGIF_no_exit)
qed

lemma mini_gif_100: "gif_Decode mini_lib [0x47, 100, 100, 100, 100] = Inr (mini_image 100 100)"
  by (simp add: mini_defs)

theorem scale_and_early_exit_differ_witness:
  "scalingFactorImage (mini_image 100 100) 100 100 = Fin 1 \<and>
   scale (mini_image 100 100)
     \<lparr>Upscale = False, Format = GIF, Quality = 80, Width = 100, Height = 100,
      Position = [], Degree = 0\<rparr> mini_Resize = mini_image 100 100 \<and>
   transformGIF mini_lib \<lparr>Source = [0x47, 100, 100, 100, 100]\<rparr>
     \<lparr>Upscale = False, Format = GIF, Quality = 80, Width = 100, Height = 100,
      Position = [], Degree = 0\<rparr> mini_Resize =
   transformGIF_all mini_lib \<lparr>Source = [0x47, 100, 100, 100, 100]\<rparr> (mini_image 100 100)
     \<lparr>Upscale = False, Format = GIF, Quality = 80, Width = 100, Height = 100,
      Position = [], Degree = 0\<rparr> mini_Resize"
proof -
  have f: "scalingFactorImage (mini_image 100 100) 100 100 = Fin 1"
    by (simp add: scalingFactorImage_def imageSize_def Bounds_def mini_image_def
          scalingFactor_finite)
  show ?thesis
    using f mini_gif_100
      scale_and_early_exit_differ [of mini_lib "\<lparr>Source = [0x47, 100, 100, 100, 100]\<rparr>"
        "mini_image 100 100" "\<lparr>Upscale = False, Format = GIF, Quality = 80, Width = 100,
        Height = 100, Position = [], Degree = 0\<rparr>" mini_Resize]
    by simp
qed

subsection \<open>Fit\<close>

text \<open>
  Claim C5, as amended. For an output format other than GIF, \<open>Fit\<close> decodes the source
  once and sends it through the scale step with the fit-within transform \<open>imaging.Fit\<close>,
  which keeps the aspect ratio and does not crop: the transform is applied when the scale
  factor is below 1 or upscaling is allowed, and otherwise the raster is encoded as it was
  decoded. For the GIF format \<open>Fit\<close> delegates to the animation pipeline.
\<close>

theorem Fit_single_frame:
  "(Format options \<noteq> GIF \<and> decode L (Source img) = Inr im \<longrightarrow>
      Fit L img options =
        (toBytes L
           (if f64_less (scalingFactorImage im (Width options) (Height options)) (Fin 1)
               \<or> Upscale options
            then imaging_Fit L im (Width options) (Height options) Lanczos
            else im)
           (Format options) (Quality options),
         options)) \<and>
   (Format options = GIF \<longrightarrow>
      (\<exists>transf. Fit L img options = transformGIF L img options transf))"
proof (intro conjI impI)
  assume "Format options \<noteq> GIF \<and> decode L (Source img) = Inr im"
  then show "Fit L img options =
        (toBytes L
           (if f64_less (scalingFactorImage im (Width options) (Height options)) (Fin 1)
               \<or> Upscale options
            then imaging_Fit L im (Width options) (Height options) Lanczos
            else im)
           (Format options) (Quality options),
         options)"
    by (simp add: Fit_def source_def transform_def scale_def)
next
  assume "Format options = GIF"
  then have "Fit L img options = transformGIF L img options (imaging_Thumbnail L)"
    by (rule Fit_GIF)
  then show "\<exists>transf. Fit L img options = transformGIF L img options transf"
    by blast
qed

lemma mini_png_100_50: "decode mini_lib [0x89, 100, 50] = Inr (mini_image 100 50)"
  by (simp add: mini_defs)

lemma mini_toBytes_PNG:
  "toBytes mini_lib (mini_image w h) PNG q = Inr [0x89, of_int w, of_int h]"
  by (simp add: toBytes_def encode_def append_to_def format_defs mini_defs)

theorem Fit_single_frame_witness:
  "decode mini_lib [0x89, 100, 50] = Inr (mini_image 100 50) \<and>
   Fit mini_lib \<lparr>Source = [0x89, 100, 50]\<rparr>
     \<lparr>Upscale = False, Format = PNG, Quality = 80, Width = 20, Height = 20,
      Position = [], Degree = 0\<rparr> =
     (Inr [0x89, 20, 10],
      \<lparr>Upscale = False, Format = PNG, Quality = 80, Width = 20, Height = 20,
       Position = [], Degree = 0\<rparr>)"
proof -
  have f: "f64_less (scalingFactorImage (mini_image 100 50) 20 20) (Fin 1)"
    by (simp add: scalingFactorImage_def imageSize_def Bounds_def mini_image_def
          scalingFactor_less_1_iff)
  have i: "imaging_Fit mini_lib (mini_image 100 50) 20 20 Lanczos = mini_image 20 10"
    by (simp add: mini_defs quo_def)
  have n: "PNG \<noteq> GIF" by (simp add: format_defs)
  show ?thesis
    using f i n mini_png_100_50 mini_toBytes_PNG [of 20 10 80]
      Fit_single_frame [of "\<lparr>Upscale = False, Format = PNG, Quality = 80, Width = 20,
        Height = 20, Position = [], Degree = 0\<rparr>" mini_lib
        "\<lparr>Source = [0x89, 100, 50]\<rparr>" "mini_image 100 50"]
    by simp
qed

text \<open>
  Claim C5 as stated asks the result of \<open>Fit\<close> to fit within the requested box. A 100 by
  50 source with a 50 by 50 box and upscale disabled has the scale factor 1, so the scale
  step passes it through and the result is 100 wide; \<open>imaging.Fit\<close> on the same image
  and box gives 50 by 25.
\<close>

theorem Fit_exceeds_box:
  "decode mini_lib [0x89, 100, 50] = Inr (mini_image 100 50) \<and>
   fst (Fit mini_lib \<lparr>Source = [0x89, 100, 50]\<rparr>
     \<lparr>Upscale = False, Format = PNG, Quality = 80, Width = 50, Height = 50,
      Position = [], Degree = 0\<rparr>) = Inr [0x89, 100, 50] \<and>
   imaging_Fit mini_lib (mini_image 100 50) 50 50 Lanczos = mini_image 50 25"
proof -
  have s: "scale (mini_image 100 50)
     \<lparr>Upscale = False, Format = f, Quality = 80, Width = 50, Height = 50,
      Position = [], Degree = 0\<rparr> t = mini_image 100 50" for t f
    by (simp add: scale_def scalingFactorImage_def imageSize_def Bounds_def mini_image_def
          scalingFactor_less_1_iff)
  have i: "imaging_Fit mini_lib (mini_image 100 50) 50 50 Lanczos = mini_image 50 25"
    by (simp add: mini_defs quo_def)
  have "Fit mini_lib \<lparr>Source = [0x89, 100, 50]\<rparr>
     \<lparr>Upscale = False, Format = PNG, Quality = 80, Width = 50, Height = 50,
      Position = [], Degree = 0\<rparr> = (Inr [0x89, 100, 50],
     \<lparr>Upscale = False, Format = PNG, Quality = 80, Width = 50, Height = 50,
      Position = [], Degree = 0\<rparr>)"
    using mini_png_100_50 mini_toBytes_PNG [of 100 50 80]
    by (simp add: Fit_def source_def transform_def s format_defs)
  then show ?thesis
    using mini_png_100_50 i by simp
qed

lemma Rect_New [simp]:
  "Rect (image_NewRGBA r) = r" "Rect (image_NewPaletted r) = r"
  by (simp_all add: image_NewRGBA_def image_NewPaletted_def)

lemmas pipeline_defs =
  transformGIF_def transformGIF_all_def imageToPaletted_def image_Rect_def image_ZP_def fill_Width_def fill_Height_def
  scale_def scalingFactorImage_def scalingFactor_def f64_of_int_def f64_greater_def
  imageSize_def Bounds_def Dx_def Dy_def quo_def

text \<open>
  For the GIF format \<open>Fit\<close> hands \<open>imaging.Thumbnail\<close> to the animation pipeline. In the
  miniature library a 100 by 50 frame and a 20 by 20 box give a 20 by 20 frame, where
  \<open>imaging.Fit\<close> would give 20 by 10.
\<close>

lemma Fit_GIF_crops:
  "Fit mini_lib \<lparr>Source = [0x47, 100, 50, 100, 50]\<rparr>
     \<lparr>Upscale = False, Format = GIF, Quality = 80, Width = 20, Height = 20,
      Position = [], Degree = 0\<rparr> =
   transformGIF mini_lib \<lparr>Source = [0x47, 100, 50, 100, 50]\<rparr>
     \<lparr>Upscale = False, Format = GIF, Quality = 80, Width = 20, Height = 20,
      Position = [], Degree = 0\<rparr> (imaging_Thumbnail mini_lib) \<and>
   fst (Fit mini_lib \<lparr>Source = [0x47, 100, 50, 100, 50]\<rparr>
     \<lparr>Upscale = False, Format = GIF, Quality = 80, Width = 20, Height = 20,
      Position = [], Degree = 0\<rparr>) = Inr [0x47, 20, 20, 20, 20] \<and>
   fst (transformGIF mini_lib \<lparr>Source = [0x47, 100, 50, 100, 50]\<rparr>
     \<lparr>Upscale = False, Format = GIF, Quality = 80, Width = 20, Height = 20,
      Position = [], Degree = 0\<rparr> (imaging_Fit mini_lib)) = Inr [0x47, 20, 20, 20, 10]"
proof -
  have t: "fst (transformGIF mini_lib \<lparr>Source = [0x47, 100, 50, 100, 50]\<rparr>
     \<lparr>Upscale = False, Format = GIF, Quality = 80, Width = 20, Height = 20,
      Position = [], Degree = 0\<rparr> (imaging_Thumbnail mini_lib)) = Inr [0x47, 20, 20, 20, 20]"
    by (simp add: pipeline_defs mini_defs)
  have f: "fst (transformGIF mini_lib \<lparr>Source = [0x47, 100, 50, 100, 50]\<rparr>
     \<lparr>Upscale = False, Format = GIF, Quality = 80, Width = 20, Height = 20,
      Position = [], Degree = 0\<rparr> (imaging_Fit mini_lib)) = Inr [0x47, 20, 20, 20, 10]"
    by (simp add: pipeline_defs mini_defs)
  have e: "Fit mini_lib \<lparr>Source = [0x47, 100, 50, 100, 50]\<rparr>
     \<lparr>Upscale = False, Format = GIF, Quality = 80, Width = 20, Height = 20,
      Position = [], Degree = 0\<rparr> =
   transformGIF mini_lib \<lparr>Source = [0x47, 100, 50, 100, 50]\<rparr>
     \<lparr>Upscale = False, Format = GIF, Quality = 80, Width = 20, Height = 20,
      Position = [], Degree = 0\<rparr> (imaging_Thumbnail mini_lib)"
    by (rule Fit_GIF) simp
  show ?thesis
    using t f unfolding e by simp
qed

end
